theory Spec2Isabelle
  imports Complex_Main
begin

section \<open>Numeric helpers of the Python runtime\<close>

text \<open>
  Voltage levels are Python floats. They are modelled as exact reals: rounding of the
  IEEE arithmetic is not part of the model, the comparisons and tolerances of the code are.

  \<^verbatim>\<open>math.isclose(a, b, abs_tol=t)\<close> keeps its default relative tolerance
  \<^verbatim>\<open>rel_tol=1e-09\<close>: the values are close when they are equal, or when their distance
  is at most \<open>rel_tol * |b|\<close>, or at most \<open>rel_tol * |a|\<close>, or at most \<open>abs_tol\<close>.
\<close>

definition rel_tol :: real where
  "rel_tol = 1 / 10 ^ 9"

definition isclose :: "real \<Rightarrow> real \<Rightarrow> real \<Rightarrow> bool" where
  "isclose a b abs_tol =
     (a = b \<or> abs (b - a) \<le> abs (rel_tol * b) \<or> abs (b - a) \<le> abs (rel_tol * a)
        \<or> abs (b - a) \<le> abs_tol)"

text \<open>Python's \<^verbatim>\<open>min\<close> over a non-empty list (the code only calls it on one).\<close>

fun py_min :: "real list \<Rightarrow> real" where
  "py_min [] = 0"
| "py_min (x # xs) = fold min xs x"


section \<open>Exceptions and the instrument channel\<close>

text \<open>
  \<^verbatim>\<open>pyvisa.VisaIOError\<close> carries a status code; the code tells a read timeout from
  any other I/O failure only by it.
\<close>

datatype visa_error = VI_ERROR_TMO | VI_ERROR_IO

definition visa_message :: "visa_error \<Rightarrow> string" where
  "visa_message e = (case e of VI_ERROR_TMO \<Rightarrow> ''VI_ERROR_TMO'' | VI_ERROR_IO \<Rightarrow> ''VI_ERROR_IO'')"

text \<open>The Python exceptions the modelled code raises, with their messages.\<close>

datatype error =
    ValueError string
  | RuntimeError string
  | FileNotFoundError string
  | VisaIOError visa_error

text \<open>\<^verbatim>\<open>str(error)\<close>.\<close>

definition error_message :: "error \<Rightarrow> string" where
  "error_message e =
     (case e of ValueError m \<Rightarrow> m | RuntimeError m \<Rightarrow> m | FileNotFoundError m \<Rightarrow> m
      | VisaIOError v \<Rightarrow> visa_message v)"

text \<open>
  The instrument session is the external collaborator. What it will answer is given in
  advance: \<open>reads\<close> are the outcomes of the successive \<^verbatim>\<open>read()\<close> calls (a line, or
  the error the call raises), \<open>write_faults\<close> those of the successive \<^verbatim>\<open>write()\<close>
  calls (\<open>Some e\<close> when the call raises). When the list is used up the instrument is
  silent: a read times out, a write succeeds. \<open>written\<close> logs the commands that went out.
\<close>

record channel =
  reads :: "(visa_error + string) list"
  write_faults :: "visa_error option list"
  written :: "string list"
  closed :: bool

definition chan_write :: "string \<Rightarrow> channel \<Rightarrow> (visa_error + unit) \<times> channel" where
  "chan_write cmd ch =
     (case write_faults ch of
        [] \<Rightarrow> (Inr (), ch\<lparr>written := written ch @ [cmd]\<rparr>)
      | None # fs \<Rightarrow> (Inr (), ch\<lparr>write_faults := fs, written := written ch @ [cmd]\<rparr>)
      | Some e # fs \<Rightarrow> (Inl e, ch\<lparr>write_faults := fs\<rparr>))"




section \<open>Commanded-versus-measured reconciliation\<close>

text \<open>
  \<^verbatim>\<open>IVSweepApp._match_voltage_sequence(expected, actual)\<close>.
  The step candidates are taken over \<^verbatim>\<open>range(length - 1)\<close>, that is over the first
  \<open>length\<close> expected values only, and a difference that \<^verbatim>\<open>math.isclose\<close> finds
  negligible is left out.
\<close>

definition step_candidates :: "real list \<Rightarrow> nat \<Rightarrow> real list" where
  "step_candidates expected len =
     map (\<lambda>i. abs (expected ! (i + 1) - expected ! i))
       (filter (\<lambda>i. \<not> isclose (expected ! (i + 1)) (expected ! i) (1 / 10 ^ 12))
          [0 ..< len - 1])"

definition base_step :: "real list \<Rightarrow> nat \<Rightarrow> real" where
  "base_step expected len =
     (if step_candidates expected len \<noteq> [] then py_min (step_candidates expected len) else 0)"

definition match_tolerance :: "real list \<Rightarrow> real list \<Rightarrow> real" where
  "match_tolerance expected actual =
     max (base_step expected (min (length expected) (length actual)) * 0.02) (1 / 10 ^ 6)"

text \<open>One iteration of the scan: the state is \<open>(stuck_index, matched)\<close>.\<close>

definition match_step ::
  "real list \<Rightarrow> real list \<Rightarrow> real \<Rightarrow> nat \<Rightarrow> nat option \<times> real list \<Rightarrow> nat option \<times> real list"
where
  "match_step expected actual tolerance idx st =
     (let exp_value = expected ! idx;
          act_value = actual ! idx;
          stuck_index = (if fst st = None \<and> abs (exp_value - act_value) > tolerance
                         then Some idx else fst st)
      in if stuck_index = None then (stuck_index, snd st @ [act_value])
         else (stuck_index, snd st @ [exp_value]))"

definition match_voltage_sequence :: "real list \<Rightarrow> real list \<Rightarrow> real list" where
  "match_voltage_sequence expected actual =
     (if expected = [] \<or> actual = [] then actual
      else
        let len = min (length expected) (length actual);
            tolerance = match_tolerance expected actual;
            matched = snd (fold (match_step expected actual tolerance) [0 ..< len] (None, []))
        in if length actual > len then matched @ drop len actual else matched)"

text \<open>
  The tolerance as the specification words it, for comparison with \<open>match_tolerance\<close>:
  the minimum non-zero absolute difference between consecutive commanded levels, over the
  whole commanded sequence.
\<close>

definition spec_base_step :: "real list \<Rightarrow> real" where
  "spec_base_step commanded =
     py_min (filter (\<lambda>d. d \<noteq> 0)
       (map (\<lambda>i. abs (commanded ! (i + 1) - commanded ! i)) [0 ..< length commanded - 1]))"

definition spec_tolerance :: "real list \<Rightarrow> real" where
  "spec_tolerance commanded = max (spec_base_step commanded * 0.02) (1 / 10 ^ 6)"


section \<open>Segment planner\<close>

text \<open>
  The sweep parameters are the tuple
  \<^verbatim>\<open>(start_v, stop_v, step_v, ilimit, nplc, settle)\<close> of \<^verbatim>\<open>_collect_parameters\<close>.
\<close>

record sweep_params =
  start_v :: real
  stop_v :: real
  step_v :: real
  ilimit :: real
  nplc :: real
  settle :: real

type_synonym segment = "real \<times> real \<times> real"

text \<open>
  The body of the \<^verbatim>\<open>while True\<close> loop of \<^verbatim>\<open>generate_segment_levels\<close>: the next
  level, clamped to \<open>stop\<close> when the step would pass it by more than \<open>epsilon\<close>.
\<close>

definition next_level :: "real \<Rightarrow> real \<Rightarrow> real \<Rightarrow> real \<Rightarrow> real" where
  "next_level epsilon stop seg_step current =
     (let direction = (if seg_step > 0 then 1 else - 1 :: int);
          nxt = current + seg_step
      in if direction > 0 \<and> nxt > stop + epsilon then stop
         else if direction < 0 \<and> nxt < stop - epsilon then stop
         else nxt)"

function levels_loop :: "real \<Rightarrow> real \<Rightarrow> real \<Rightarrow> real \<Rightarrow> real list \<Rightarrow> real list" where
  "levels_loop epsilon stop seg_step current levels =
     (let nxt = next_level epsilon stop seg_step current
      in if isclose nxt current epsilon then levels
         else if isclose nxt stop epsilon then levels @ [nxt]
         else levels_loop epsilon stop seg_step nxt (levels @ [nxt]))"
  by pat_completeness auto

text \<open>
  Every turn of the loop that goes on moves the level by a whole step towards the stop
  without passing it by more than \<open>epsilon\<close>, so the number of steps that still fit
  decreases.
\<close>

definition loop_measure :: "real \<Rightarrow> real \<Rightarrow> real \<Rightarrow> real \<Rightarrow> nat" where
  "loop_measure epsilon stop seg_step current =
     (if seg_step > 0 then nat \<lceil>(stop + epsilon - current) / seg_step\<rceil>
      else if seg_step < 0 then nat \<lceil>(current - stop + epsilon) / (- seg_step)\<rceil>
      else 0)"

lemma isclose_refl: "isclose a a t"
  by (simp add: isclose_def)

lemma loop_measure_decreases:
  assumes "\<not> isclose (next_level epsilon stop seg_step current) current epsilon"
    and "\<not> isclose (next_level epsilon stop seg_step current) stop epsilon"
  shows "loop_measure epsilon stop seg_step (next_level epsilon stop seg_step current)
          < loop_measure epsilon stop seg_step current"
proof -
  let ?n = "next_level epsilon stop seg_step current"
  have ns: "?n \<noteq> stop" using assms(2) isclose_refl by metis
  have nc: "?n \<noteq> current" using assms(1) isclose_refl by metis
  consider (pos) "seg_step > 0" | (neg) "seg_step < 0" | (zero) "seg_step = 0" by linarith
  then show ?thesis
  proof cases
    case pos
    with ns have n: "?n = current + seg_step" and le: "current + seg_step \<le> stop + epsilon"
      by (auto simp: next_level_def Let_def split: if_splits)
    let ?x = "(stop + epsilon - current) / seg_step"
    have "(stop + epsilon - ?n) / seg_step = ?x - 1"
      using pos by (simp add: n field_simps)
    moreover have "1 \<le> ?x" using pos le by (simp add: field_simps)
    then have "1 \<le> \<lceil>?x\<rceil>" by linarith
    ultimately show ?thesis using pos by (simp add: loop_measure_def)
  next
    case neg
    with ns have n: "?n = current + seg_step" and le: "stop - epsilon \<le> current + seg_step"
      by (auto simp: next_level_def Let_def split: if_splits)
    let ?x = "(current - stop + epsilon) / (- seg_step)"
    have "(?n - stop + epsilon) / (- seg_step) = ?x - 1"
      using neg by (simp add: n field_simps)
    moreover have "1 \<le> ?x" using neg le by (simp add: field_simps)
    then have "1 \<le> \<lceil>?x\<rceil>" by linarith
    ultimately show ?thesis using neg by (simp add: loop_measure_def)
  next
    case zero
    with ns nc show ?thesis
      by (auto simp: next_level_def Let_def split: if_splits)
  qed
qed

termination levels_loop
  by (relation "measure (\<lambda>(epsilon, stop, seg_step, current, levels).
        loop_measure epsilon stop seg_step current)")
     (simp_all add: loop_measure_decreases)

declare levels_loop.simps [simp del]

text \<open>
  \<^verbatim>\<open>generate_segment_levels(start, stop, seg_step)\<close>, a closure over \<open>epsilon\<close>.
\<close>

definition generate_segment_levels :: "real \<Rightarrow> real \<Rightarrow> real \<Rightarrow> real \<Rightarrow> real list" where
  "generate_segment_levels epsilon start stop seg_step =
     (if isclose seg_step 0 epsilon then [start]
      else levels_loop epsilon stop seg_step start [start])"

text \<open>
  \<^verbatim>\<open>append_segment(start, stop)\<close>, a closure over \<open>step_mag\<close>, \<open>epsilon\<close> and the two
  lists \<open>segments\<close> and \<open>path_levels\<close> it extends; the lists are passed and returned.
\<close>

definition append_segment ::
  "real \<Rightarrow> real \<Rightarrow> real \<Rightarrow> real \<Rightarrow> segment list \<times> real list \<Rightarrow> segment list \<times> real list"
where
  "append_segment step_mag epsilon start stop st =
     (if isclose start stop epsilon then st
      else
        let seg_step = (if stop \<ge> start then step_mag else - step_mag);
            segment_levels = generate_segment_levels epsilon start stop seg_step
        in (fst st @ [(start, stop, seg_step)], snd st @ segment_levels))"

text \<open>\<^verbatim>\<open>IVSweepApp._build_segments(params)\<close>: the segments and the commanded path.\<close>

definition build_segments :: "sweep_params \<Rightarrow> error + segment list \<times> real list" where
  "build_segments params =
     (let step_mag = abs (step_v params) in
      if isclose step_mag 0 (1 / 10 ^ 15)
      then Inl (ValueError ''Step voltage must not be zero.'')
      else
        let epsilon = step_mag * (1 / 10 ^ 9) + 1 / 10 ^ 12;
            positive_target = max (max (start_v params) (stop_v params)) 0;
            negative_target = min (min (start_v params) (stop_v params)) 0;
            st0 = ([], []);
            st1 = (if positive_target > epsilon
                   then append_segment step_mag epsilon positive_target 0
                          (append_segment step_mag epsilon 0 positive_target st0)
                   else st0);
            st2 = (if negative_target < - epsilon
                   then append_segment step_mag epsilon negative_target 0
                          (append_segment step_mag epsilon 0 negative_target st1)
                   else st1);
            st3 = (if fst st2 = []
                   then ([(start_v params, stop_v params, step_v params)],
                         generate_segment_levels epsilon (start_v params) (stop_v params)
                           (step_v params))
                   else st2);
            st4 = (if snd st3 = [] then (fst st3, [0]) else st3)
        in Inr st4)"


section \<open>The planner's result, for stating its properties\<close>





section \<open>Parameter collection and sweep start\<close>

text \<open>
  What the application does to its surroundings is recorded as a list of events, in the
  order it happens: message boxes, log lines, callbacks posted to the UI thread with
  \<^verbatim>\<open>root.after(0, ...)\<close>, threads started and joined.
\<close>

text \<open>
  The text fields of the sweep window. Python's \<^verbatim>\<open>float(text)\<close> is a parameter
  \<open>py_float\<close> of the model: \<open>None\<close> where it raises \<^verbatim>\<open>ValueError\<close>.
\<close>

record sweep_fields =
  start_var :: string
  stop_var :: string
  step_var :: string
  ilimit_var :: string
  nplc_var :: string
  settle_var :: string
  total_runs_var :: string

text \<open>\<^verbatim>\<open>str.strip()\<close> on the ASCII white space characters.\<close>

definition is_space :: "char \<Rightarrow> bool" where
  "is_space c = (c \<in> set [CHR '' '', CHR 0x09, CHR 0x0A, CHR 0x0B, CHR 0x0C, CHR 0x0D])"

definition strip :: "string \<Rightarrow> string" where
  "strip s = rev (dropWhile is_space (rev (dropWhile is_space s)))"

text \<open>The local \<^verbatim>\<open>parse_float(value, label)\<close> of \<^verbatim>\<open>_collect_parameters\<close>.\<close>

definition parse_float :: "(string \<Rightarrow> real option) \<Rightarrow> string \<Rightarrow> string \<Rightarrow> error + real" where
  "parse_float py_float v label =
     (case py_float v of
        Some x \<Rightarrow> Inr x
      | None \<Rightarrow> Inl (ValueError (label @ '' must be a number.'')))"

text \<open>
  \<^verbatim>\<open>float.is_integer()\<close> and \<^verbatim>\<open>int(float)\<close> on the exact value.
\<close>

definition is_integer :: "real \<Rightarrow> bool" where
  "is_integer x = (of_int \<lfloor>x\<rfloor> = x)"

text \<open>
  \<^verbatim>\<open>IVSweepApp._collect_parameters()\<close>: the six sweep parameters and the number of
  runs, or the \<^verbatim>\<open>ValueError\<close> of the first check that fails, in the order of the code.
\<close>

definition collect_parameters ::
  "(string \<Rightarrow> real option) \<Rightarrow> sweep_fields \<Rightarrow> error + sweep_params \<times> int"
where
  "collect_parameters py_float ui =
     (case parse_float py_float (start_var ui) ''Start voltage'' of Inl e \<Rightarrow> Inl e | Inr start_v' \<Rightarrow>
      case parse_float py_float (stop_var ui) ''Stop voltage'' of Inl e \<Rightarrow> Inl e | Inr stop_v' \<Rightarrow>
      case parse_float py_float (step_var ui) ''Step voltage'' of Inl e \<Rightarrow> Inl e | Inr step_v' \<Rightarrow>
      if step_v' = 0 then Inl (ValueError ''Step voltage must not be zero.'') else
      case parse_float py_float (ilimit_var ui) ''Compliance current'' of Inl e \<Rightarrow> Inl e | Inr il \<Rightarrow>
      case parse_float py_float (nplc_var ui) ''NPLC'' of Inl e \<Rightarrow> Inl e | Inr np \<Rightarrow>
      case parse_float py_float (settle_var ui) ''Settle time'' of Inl e \<Rightarrow> Inl e | Inr se \<Rightarrow>
      let total_runs_value = strip (total_runs_var ui) in
      if total_runs_value = [] then Inl (ValueError ''Total runs must be provided.'') else
      case py_float total_runs_value of
        None \<Rightarrow> Inl (ValueError ''Total runs must be an integer.'')
      | Some total_runs_float \<Rightarrow>
          if \<not> is_integer total_runs_float
          then Inl (ValueError ''Total runs must be an integer.'')
          else
            let total_runs = \<lfloor>total_runs_float\<rfloor> in
            if total_runs < 1 then Inl (ValueError ''Total runs must be at least 1.'')
            else Inr (\<lparr>start_v = start_v', stop_v = stop_v', step_v = step_v',
                        ilimit = abs il, nplc = max np 0.001, settle = max se 0\<rparr>,
                      total_runs))"


section \<open>The drain loop of a segment\<close>

text \<open>
  \<^verbatim>\<open>stop_event.is_set()\<close> is polled by the worker while the UI thread may set the
  event. The successive answers are given in advance as a list of booleans; when the list
  is used up the event is not set.
\<close>

definition poll :: "bool list \<Rightarrow> bool \<times> bool list" where
  "poll polls = (case polls of [] \<Rightarrow> (False, []) | b # bs \<Rightarrow> (b, bs))"

text \<open>
  The \<^verbatim>\<open>while True\<close> loop of \<^verbatim>\<open>IVSweepApp._read_until_marker(marker, on_line)\<close>
  over the outcomes of the reads to come. The per-line callback works on a state of its
  own and may raise: it returns the exception, if any, and the state it leaves. The loop
  returns the lines or the exception it raises, and what is left of the polls, of the
  reads and of the callback's state.

  Any \<^verbatim>\<open>VisaIOError\<close> of the read, a timeout as well, is re-raised as
  \<^verbatim>\<open>RuntimeError\<close>; an exception of the callback is dropped (\<^verbatim>\<open>except Exception: pass\<close>).
\<close>

fun drain ::
  "string \<Rightarrow> (string \<Rightarrow> 'st \<Rightarrow> error option \<times> 'st) option \<Rightarrow> bool list
     \<Rightarrow> (visa_error + string) list \<Rightarrow> 'st \<Rightarrow> string list
     \<Rightarrow> (error + string list) \<times> bool list \<times> (visa_error + string) list \<times> 'st"
where
  "drain marker on_line polls [] st lines =
     (if fst (poll polls) then (Inl (RuntimeError ''Sweep cancelled.''), snd (poll polls), [], st)
      else (Inl (RuntimeError (''Failed while waiting for sweep output: ''
                   @ visa_message VI_ERROR_TMO)), snd (poll polls), [], st))"
| "drain marker on_line polls (r # rs) st lines =
     (if fst (poll polls)
      then (Inl (RuntimeError ''Sweep cancelled.''), snd (poll polls), r # rs, st)
      else
        case r of
          Inl e \<Rightarrow>
            (Inl (RuntimeError (''Failed while waiting for sweep output: '' @ visa_message e)),
             snd (poll polls), rs, st)
        | Inr raw \<Rightarrow>
            let line = strip raw in
            if line = marker then (Inr lines, snd (poll polls), rs, st)
            else if line \<noteq> []
            then
              let st' = (case on_line of None \<Rightarrow> st | Some f \<Rightarrow> snd (f line st))
              in drain marker on_line (snd (poll polls)) rs st' (lines @ [line])
            else drain marker on_line (snd (poll polls)) rs st lines)"




section \<open>The application state\<close>

text \<open>
  One entry of \<^verbatim>\<open>run_entries\<close>: the dictionary the worker builds for each run.
\<close>

record run_entry =
  run_index :: nat
  actual_voltages :: "real list"
  currents :: "real list"
  corrected_voltages :: "real list"
  printed_lines :: "string list"
  point_count :: nat
  color :: string
  adjusted :: bool

text \<open>The callbacks the threads post to the UI thread with \<^verbatim>\<open>root.after(0, ...)\<close>.\<close>

datatype ui_call =
    UpdateLivePlot "run_entry list"
  | OnSweepFailed error
  | OnSweepComplete "run_entry list"
  | TriggerCallback

text \<open>
  What the application does to its surroundings, in the order it happens: message boxes,
  log lines of the two windows, threads started and joined, callbacks posted.
\<close>

datatype event =
    ShowError string string
  | ShowInfo string string
  | ShowWarning string string
  | IvLog string
  | TriggerLog string
  | SweepThreadStarted sweep_params int
  | SweepThreadJoined
  | WaitThreadStarted string string int string
  | Posted ui_call
  | TabSelected string
  | PlotClosed

text \<open>
  Builtins of the Python runtime and files the code reads are parameters of the model:
  \<^verbatim>\<open>float(text)\<close> and \<^verbatim>\<open>int(text)\<close> (\<open>None\<close> where they raise
  \<^verbatim>\<open>ValueError\<close>), the text \<^verbatim>\<open>f"{x}"\<close> of a float, the lines of the listener's
  \<^verbatim>\<open>TSP_SCRIPT\<close>, and the lines of the sweep's script file (\<open>None\<close> when the file
  does not exist).
\<close>

record pyenv =
  py_float :: "string \<Rightarrow> real option"
  py_int :: "string \<Rightarrow> int option"
  float_str :: "real \<Rightarrow> string"
  tsp_script :: "string list"
  tsp_file :: "string list option"

text \<open>An instrument session object is known by its identity.\<close>

type_synonym handle = nat

text \<open>
  \<^verbatim>\<open>TriggerReceiveGUI\<close> (with the fields of its base class
  \<^verbatim>\<open>ReceiveTriggerGUI\<close>). A button is \<open>True\<close> when its state is \<^verbatim>\<open>normal\<close>.
\<close>

record listener =
  tg_rm :: "handle option"
  tg_inst :: "handle option"
  tg_script_loaded :: bool
  tg_address_var :: string
  edge_var :: string
  line_number_var :: string
  line_mode_var :: string
  timeout_var :: string
  wait_thread_alive :: bool
  waiting :: bool
  cancel_requested :: bool
  wait_context :: "(string \<times> string) list option"
  status_var :: string
  btn_setup :: bool
  btn_wait :: bool
  btn_cancel :: bool
  btn_hello :: bool
  btn_hey :: bool
  btn_clear :: bool
  instrument_locked :: bool
  status_before_lock :: "string option"

text \<open>
  \<^verbatim>\<open>IntegratedIVSweepApp\<close> (with the fields of its base class \<^verbatim>\<open>IVSweepApp\<close>).
  \<open>sweep_thread_alive\<close> stands for
  \<^verbatim>\<open>self.sweep_thread and self.sweep_thread.is_alive()\<close>, \<open>run_color_cycle\<close> for the
  position in the cycle of \<^verbatim>\<open>RUN_COLORS\<close>.
\<close>

record iv_app =
  iv_rm :: "handle option"
  iv_inst :: "handle option"
  iv_script_loaded :: bool
  iv_address_var :: string
  entry_fields :: sweep_fields
  wiring_var :: string
  sweep_thread_alive :: bool
  stop_event :: bool
  last_params :: "sweep_params option"
  app_corrected_voltages :: "real list"
  current_data :: "(real \<times> real) list"
  run_results :: "run_entry list"
  output_lines :: "string list"
  run_color_cycle :: nat
  run_button :: bool
  save_button :: bool
  connect_button :: bool
  disconnect_button :: bool
  using_shared_session :: bool

text \<open>
  \<^verbatim>\<open>ReceiveAndIVApp\<close>: the two windows, the instrument sessions by identity, and the
  events so far.
\<close>

record system =
  trigger_gui :: listener
  iv :: iv_app
  sessions :: "handle \<Rightarrow> channel option"
  events :: "event list"

definition emit :: "event \<Rightarrow> system \<Rightarrow> system" where
  "emit e s = s\<lparr>events := events s @ [e]\<rparr>"

text \<open>
  \<^verbatim>\<open>inst.write(cmd)\<close> on the session with identity \<open>h\<close>. A session that is not
  there any more fails with an I/O error.
\<close>

definition session_write :: "handle \<Rightarrow> string \<Rightarrow> system \<Rightarrow> (visa_error + unit) \<times> system" where
  "session_write h cmd s =
     (case sessions s h of
        None \<Rightarrow> (Inl VI_ERROR_IO, s)
      | Some ch \<Rightarrow>
          (case chan_write cmd ch of
             (r, ch') \<Rightarrow> (r, s\<lparr>sessions := (sessions s)(h := Some ch')\<rparr>)))"

text \<open>\<^verbatim>\<open>inst.close()\<close>.\<close>

definition session_close :: "handle \<Rightarrow> system \<Rightarrow> system" where
  "session_close h s =
     (case sessions s h of
        None \<Rightarrow> s
      | Some ch \<Rightarrow> s\<lparr>sessions := (sessions s)(h := Some (ch\<lparr>closed := True\<rparr>))\<rparr>)"

text \<open>
  The state the constructors leave: \<^verbatim>\<open>ReceiveTriggerGUI.__init__\<close> with
  \<^verbatim>\<open>TriggerReceiveGUI.__init__\<close>, and \<^verbatim>\<open>IVSweepApp.__init__\<close> with
  \<^verbatim>\<open>IntegratedIVSweepApp.__init__\<close>.
\<close>

definition init_listener :: listener where
  "init_listener =
     \<lparr>tg_rm = None, tg_inst = None, tg_script_loaded = False,
      tg_address_var = ''TCPIP0::169.254.188.69::5025::SOCKET'',
      edge_var = ''falling'', line_number_var = ''1'',
      line_mode_var = ''Trigger control, input'', timeout_var = '''',
      wait_thread_alive = False, waiting = False, cancel_requested = False,
      wait_context = None, status_var = ''Disconnected'',
      btn_setup = False, btn_wait = False, btn_cancel = False, btn_hello = False,
      btn_hey = False, btn_clear = False,
      instrument_locked = False, status_before_lock = None\<rparr>"

definition init_iv_app :: iv_app where
  "init_iv_app =
     \<lparr>iv_rm = None, iv_inst = None, iv_script_loaded = False,
      iv_address_var = ''TCPIP0::169.254.188.69::5025::SOCKET'',
      entry_fields = \<lparr>start_var = ''-4.0'', stop_var = ''4.0'', step_var = ''0.1'',
                       ilimit_var = ''0.5'', nplc_var = ''1'', settle_var = ''0.01'',
                       total_runs_var = ''1''\<rparr>,
      wiring_var = ''4-wire'', sweep_thread_alive = False, stop_event = False,
      last_params = None, app_corrected_voltages = [], current_data = [],
      run_results = [], output_lines = [], run_color_cycle = 0,
      run_button = False, save_button = False, connect_button = True,
      disconnect_button = False, using_shared_session = False\<rparr>"

definition init_system :: system where
  "init_system =
     \<lparr>trigger_gui = init_listener, iv = init_iv_app, sessions = (\<lambda>h. None), events = []\<rparr>"

text \<open>A session that has not been used yet and will answer as given.\<close>

definition fresh_channel :: "(visa_error + string) list \<Rightarrow> channel" where
  "fresh_channel rs = \<lparr>reads = rs, write_faults = [], written = [], closed = False\<rparr>"


section \<open>Starting a sweep\<close>

text \<open>
  \<^verbatim>\<open>IVSweepApp.start_sweep()\<close>. It runs on the UI thread; starting the worker thread
  is the event \<open>SweepThreadStarted\<close>, and the thread is alive from then on.
\<close>

definition start_sweep :: "pyenv \<Rightarrow> system \<Rightarrow> system" where
  "start_sweep env s =
     (if iv_inst (iv s) = None
      then emit (ShowError ''Instrument'' ''Connect to the instrument first.'') s
      else
        case collect_parameters (py_float env) (entry_fields (iv s)) of
          Inl e \<Rightarrow> emit (ShowError ''Parameters'' (error_message e)) s
        | Inr (sweep_params, total_runs) \<Rightarrow>
            let s1 = s\<lparr>iv := (iv s)\<lparr>last_params := Some sweep_params,
                       app_corrected_voltages := [], current_data := [], run_results := [],
                       run_color_cycle := 0, output_lines := [],
                       run_button := False, save_button := False\<rparr>\<rparr>;
                s2 = emit (IvLog ''Starting sweep...'') s1;
                s3 = (if sweep_thread_alive (iv s2)
                      then emit SweepThreadJoined (s2\<lparr>iv := (iv s2)\<lparr>stop_event := True\<rparr>\<rparr>)
                      else s2);
                s4 = s3\<lparr>iv := (iv s3)\<lparr>stop_event := False, sweep_thread_alive := True\<rparr>\<rparr>
            in emit (SweepThreadStarted sweep_params total_runs) s4)"


section \<open>The trigger listener\<close>

text \<open>\<^verbatim>\<open>str.lower()\<close> on ASCII letters, and the decimal text of an integer.\<close>

definition lower_char :: "char \<Rightarrow> char" where
  "lower_char c =
     (if 65 \<le> (of_char c :: nat) \<and> (of_char c :: nat) \<le> 90
      then char_of ((of_char c :: nat) + 32) else c)"

definition lower :: "string \<Rightarrow> string" where
  "lower s = map lower_char s"

fun show_nat :: "nat \<Rightarrow> string" where
  "show_nat n =
     (if n < 10 then [char_of (48 + n)]
      else show_nat (n div 10) @ [char_of (48 + n mod 10)])"

declare show_nat.simps [simp del]

definition show_int :: "int \<Rightarrow> string" where
  "show_int i = (if i < 0 then CHR ''-'' # show_nat (nat (- i)) else show_nat (nat i))"

text \<open>The constants of \<^verbatim>\<open>2450_receive_trigger.py\<close>.\<close>

definition SCRIPT_NAME :: string where
  "SCRIPT_NAME = ''ReceiveTrigger''"

definition LINE_MODE_CHOICES :: "(string \<times> string) list" where
  "LINE_MODE_CHOICES =
     [(''Trigger control, input'', ''trigger_in''),
      (''Trigger control, open-drain'', ''trigger_open_drain''),
      (''Trigger control, output'', ''trigger_out''),
      (''Digital control, input'', ''digital_in''),
      (''Digital control, output'', ''digital_out''),
      (''Digital control, open-drain'', ''digital_open_drain''),
      (''Synchronous master'', ''synchronous_master''),
      (''Synchronous acceptor'', ''synchronous_acceptor'')]"

text \<open>The methods of the base class \<^verbatim>\<open>ReceiveTriggerGUI\<close>.\<close>

definition tg_log :: "string \<Rightarrow> system \<Rightarrow> system" where
  "tg_log message s = emit (TriggerLog message) s"

definition set_buttons :: "bool \<Rightarrow> bool \<Rightarrow> system \<Rightarrow> system" where
  "set_buttons conn wtg s =
     s\<lparr>trigger_gui := (trigger_gui s)
        \<lparr>btn_setup := conn \<and> \<not> wtg, btn_wait := conn \<and> \<not> wtg,
         btn_cancel := conn \<and> wtg, btn_hello := conn, btn_hey := conn,
         btn_clear := conn\<rparr>\<rparr>"

text \<open>Writing commands one after the other, up to the first write that raises.\<close>

fun write_all :: "handle \<Rightarrow> string list \<Rightarrow> system \<Rightarrow> (visa_error + unit) \<times> system" where
  "write_all h [] s = (Inr (), s)"
| "write_all h (c # cs) s =
     (case session_write h c s of
        (Inl e, s') \<Rightarrow> (Inl e, s')
      | (Inr u, s') \<Rightarrow> write_all h cs s')"

definition load_script :: "pyenv \<Rightarrow> system \<Rightarrow> system" where
  "load_script env s =
     (case tg_inst (trigger_gui s) of
        None \<Rightarrow> s
      | Some h \<Rightarrow>
          let s1 = snd (session_write h (''pcall(script.delete, '' @ [CHR 0x27] @ SCRIPT_NAME
                          @ [CHR 0x27] @ '')'') s)
          in case write_all h (tsp_script env @ [SCRIPT_NAME @ ''.save()'', SCRIPT_NAME @ ''()''])
                    s1 of
               (Inr u, s2) \<Rightarrow>
                 tg_log ''TSP script loaded.''
                   (s2\<lparr>trigger_gui := (trigger_gui s2)\<lparr>tg_script_loaded := True\<rparr>\<rparr>)
             | (Inl exc, s2) \<Rightarrow>
                 tg_log (''Script load failed: '' @ visa_message exc)
                   (emit (ShowError ''Script'' (''Failed to load script: '' @ visa_message exc))
                      (s2\<lparr>trigger_gui := (trigger_gui s2)\<lparr>tg_script_loaded := False\<rparr>\<rparr>)))"

definition check_ready :: "pyenv \<Rightarrow> system \<Rightarrow> bool \<times> system" where
  "check_ready env s =
     (if tg_inst (trigger_gui s) = None
      then (False, emit (ShowWarning ''Instrument'' ''Connect to the instrument first.'') s)
      else if \<not> tg_script_loaded (trigger_gui s)
      then (let s1 = load_script env s in (tg_script_loaded (trigger_gui s1), s1))
      else (True, s))"

definition resolve_line_number :: "pyenv \<Rightarrow> listener \<Rightarrow> error + int" where
  "resolve_line_number env g =
     (let v = (if strip (line_number_var g) \<noteq> [] then strip (line_number_var g) else ''1'')
      in case py_int env v of
           None \<Rightarrow> Inl (ValueError ''Select a valid DIGIO line (1-6).'')
         | Some number \<Rightarrow>
             if \<not> (1 \<le> number \<and> number \<le> 6)
             then Inl (ValueError ''DIGIO line must be between 1 and 6.'')
             else Inr number)"

definition resolve_mode_selection :: "listener \<Rightarrow> error + string \<times> string" where
  "resolve_mode_selection g =
     (case map_of LINE_MODE_CHOICES (line_mode_var g) of
        None \<Rightarrow> Inl (ValueError ''Select a valid line mode.'')
      | Some key \<Rightarrow>
          if key = [] then Inl (ValueError ''Select a valid line mode.'')
          else Inr (key, line_mode_var g))"

definition format_timeout_arg :: "pyenv \<Rightarrow> listener \<Rightarrow> error + string" where
  "format_timeout_arg env g =
     (let text = strip (timeout_var g) in
      if text = [] then Inr ''nil''
      else case py_float env text of
             None \<Rightarrow> Inl (ValueError ''Timeout must be numeric.'')
           | Some v \<Rightarrow>
               if v < 0 then Inl (ValueError ''Timeout must be >= 0.'')
               else Inr (float_str env v))"

definition edge_text :: "listener \<Rightarrow> string" where
  "edge_text g = lower (strip (edge_var g))"

definition edge_arg :: "string \<Rightarrow> string" where
  "edge_arg edge = (if edge \<noteq> [] then [CHR 0x27] @ edge @ [CHR 0x27] else ''nil'')"

definition edge_or_default :: "string \<Rightarrow> string" where
  "edge_or_default edge = (if edge \<noteq> [] then edge else ''default'')"

text \<open>\<^verbatim>\<open>ReceiveTriggerGUI.setup_trigger()\<close>.\<close>

definition super_setup_trigger :: "pyenv \<Rightarrow> system \<Rightarrow> system" where
  "super_setup_trigger env s =
     (case check_ready env s of
        (False, s1) \<Rightarrow> s1
      | (True, s1) \<Rightarrow>
          let g = trigger_gui s1; edge = edge_text g in
          case resolve_line_number env g of
            Inl exc \<Rightarrow> emit (ShowError ''Setup'' (error_message exc)) s1
          | Inr line_number \<Rightarrow>
              case resolve_mode_selection g of
                Inl exc \<Rightarrow> emit (ShowError ''Setup'' (error_message exc)) s1
              | Inr (mode_key, mode_label) \<Rightarrow>
                  case tg_inst g of
                    None \<Rightarrow> s1
                  | Some h \<Rightarrow>
                      case session_write h
                             (''receive_trigger_setup('' @ edge_arg edge @ '', ''
                                @ show_int line_number @ '', '' @ [CHR 0x27] @ mode_key
                                @ [CHR 0x27] @ '')'') s1 of
                        (Inr u, s2) \<Rightarrow>
                          tg_log (''Setup complete. DIGIO'' @ show_int line_number
                                    @ '' configured for '' @ mode_label @ '' mode (edge=''
                                    @ edge_or_default edge @ '').'') s2
                      | (Inl exc, s2) \<Rightarrow>
                          tg_log (''Setup failed: '' @ visa_message exc)
                            (emit (ShowError ''Setup'' (''Setup failed: '' @ visa_message exc))
                               s2))"

text \<open>
  \<^verbatim>\<open>ReceiveTriggerGUI.start_wait()\<close>. Starting the thread that sends the blocking
  wait query is the event \<open>WaitThreadStarted\<close>.
\<close>

definition super_start_wait :: "pyenv \<Rightarrow> system \<Rightarrow> system" where
  "super_start_wait env s =
     (case check_ready env s of
        (False, s1) \<Rightarrow> s1
      | (True, s1) \<Rightarrow>
          let g = trigger_gui s1 in
          if waiting g then emit (ShowInfo ''Wait'' ''Already waiting for a trigger.'') s1
          else
            case format_timeout_arg env g of
              Inl exc \<Rightarrow> emit (ShowError ''Wait'' (error_message exc)) s1
            | Inr timeout_arg \<Rightarrow>
                let edge = edge_text g in
                case resolve_line_number env g of
                  Inl exc \<Rightarrow> emit (ShowError ''Wait'' (error_message exc)) s1
                | Inr line_number \<Rightarrow>
                    case resolve_mode_selection g of
                      Inl exc \<Rightarrow> emit (ShowError ''Wait'' (error_message exc)) s1
                    | Inr (mode_key, mode_label) \<Rightarrow>
                        let s2 = s1\<lparr>trigger_gui := g
                                   \<lparr>waiting := True, cancel_requested := False,
                                    wait_context := Some
                                      [(''line'', show_int line_number),
                                       (''mode_label'', mode_label),
                                       (''edge'', edge_or_default edge),
                                       (''timeout'', timeout_arg)]\<rparr>\<rparr>;
                            s3 = set_buttons True True s2;
                            s4 = tg_log (''Waiting for trigger on DIGIO'' @ show_int line_number
                                    @ '' ('' @ mode_label @ '', edge='' @ edge_or_default edge
                                    @ '', timeout='' @ timeout_arg @ '').'') s3;
                            s5 = s4\<lparr>trigger_gui := (trigger_gui s4)\<lparr>wait_thread_alive := True\<rparr>\<rparr>
                        in emit (WaitThreadStarted timeout_arg edge line_number mode_key) s5)"

text \<open>
  \<^verbatim>\<open>ReceiveTriggerGUI.disconnect()\<close>. Closing the resource manager leaves no
  trace in the model.
\<close>

definition super_disconnect :: "system \<Rightarrow> system" where
  "super_disconnect s =
     (let g = trigger_gui s;
          s1 = (case tg_inst g of
                  Some h \<Rightarrow> (if waiting g then snd (session_write h ''abort'' s) else s)
                | None \<Rightarrow> s);
          s2 = s1\<lparr>trigger_gui := (trigger_gui s1)\<lparr>waiting := False, wait_context := None\<rparr>\<rparr>;
          s3 = (case tg_inst (trigger_gui s2) of Some h \<Rightarrow> session_close h s2 | None \<Rightarrow> s2);
          s5 = s3\<lparr>trigger_gui := (trigger_gui s3)
                    \<lparr>tg_rm := None, tg_inst := None, tg_script_loaded := False\<rparr>\<rparr>;
          s6 = tg_log ''Disconnected.'' s5;
          s7 = s6\<lparr>trigger_gui := (trigger_gui s6)\<lparr>status_var := ''Disconnected''\<rparr>\<rparr>
      in set_buttons False False s7)"

text \<open>
  The subclass \<^verbatim>\<open>TriggerReceiveGUI\<close>: the lock and the three guarded methods.
\<close>

definition guard_if_locked :: "string \<Rightarrow> system \<Rightarrow> bool \<times> system" where
  "guard_if_locked action s =
     (if \<not> instrument_locked (trigger_gui s) then (True, s)
      else (False, emit (ShowInfo ''Instrument Busy''
                           (''Cannot '' @ action @ '' while an I-V sweep is running.'')) s))"

definition set_instrument_lock :: "bool \<Rightarrow> system \<Rightarrow> system" where
  "set_instrument_lock locked s =
     (let g = trigger_gui s in
      if locked = instrument_locked g then s
      else if locked
      then s\<lparr>trigger_gui := g\<lparr>instrument_locked := locked,
                 status_before_lock := Some (status_var g),
                 status_var := ''Instrument busy running I-V sweep.''\<rparr>\<rparr>
      else s\<lparr>trigger_gui := g\<lparr>instrument_locked := locked,
                 status_var := (case status_before_lock g of
                                  None \<Rightarrow> ''Trigger operations unlocked.''
                                | Some st \<Rightarrow> if st \<noteq> [] then st
                                             else ''Trigger operations unlocked.''),
                 status_before_lock := None\<rparr>\<rparr>)"

definition start_wait :: "pyenv \<Rightarrow> system \<Rightarrow> system" where
  "start_wait env s =
     (case guard_if_locked ''start a new wait'' s of
        (False, s1) \<Rightarrow> s1
      | (True, s1) \<Rightarrow> super_start_wait env s1)"

definition setup_trigger :: "pyenv \<Rightarrow> system \<Rightarrow> system" where
  "setup_trigger env s =
     (case guard_if_locked ''configure the trigger'' s of
        (False, s1) \<Rightarrow> s1
      | (True, s1) \<Rightarrow> super_setup_trigger env s1)"

definition disconnect :: "system \<Rightarrow> system" where
  "disconnect s =
     (case guard_if_locked ''disconnect'' s of
        (False, s1) \<Rightarrow> s1
      | (True, s1) \<Rightarrow> super_disconnect s1)"


section \<open>Handing the session over to the sweep\<close>

text \<open>The methods of \<^verbatim>\<open>IntegratedIVSweepApp\<close> and of its base class.\<close>

definition iv_log :: "string \<Rightarrow> system \<Rightarrow> system" where
  "iv_log message s = emit (IvLog message) s"

definition is_sweep_running :: "system \<Rightarrow> bool" where
  "is_sweep_running s = sweep_thread_alive (iv s)"

definition attach_shared_instrument ::
  "handle option \<Rightarrow> handle option \<Rightarrow> string \<Rightarrow> system \<Rightarrow> error + system"
where
  "attach_shared_instrument instrument resource_manager address s =
     (if is_sweep_running s
      then Inl (RuntimeError ''Cannot attach a new instrument while a sweep is running.'')
      else
        let a = (iv s)\<lparr>iv_inst := instrument, iv_rm := resource_manager,
                        iv_script_loaded := False, using_shared_session := True\<rparr>;
            a' = (if address \<noteq> [] then a\<lparr>iv_address_var := address\<rparr> else a);
            a'' = a'\<lparr>connect_button := False, disconnect_button := False, run_button := True\<rparr>
        in Inr (iv_log ''Using shared instrument session from the trigger window.''
                  (s\<lparr>iv := a''\<rparr>)))"

definition release_shared_instrument :: "system \<Rightarrow> system" where
  "release_shared_instrument s =
     (if \<not> using_shared_session (iv s) then s
      else
        let s1 = iv_log ''Releasing shared instrument session back to the trigger window.'' s
        in s1\<lparr>iv := (iv s1)\<lparr>iv_inst := None, iv_rm := None, iv_script_loaded := False,
                   using_shared_session := False, run_button := False, save_button := False,
                   connect_button := True, disconnect_button := False\<rparr>\<rparr>)"

text \<open>
  \<^verbatim>\<open>_notify_run_state(running)\<close> calls \<^verbatim>\<open>run_state_callback\<close>, which
  \<^verbatim>\<open>ReceiveAndIVApp.__init__\<close> sets to \<^verbatim>\<open>_on_iv_run_state_changed\<close>.
\<close>

definition on_iv_run_state_changed :: "bool \<Rightarrow> system \<Rightarrow> system" where
  "on_iv_run_state_changed running s = set_instrument_lock running s"

definition notify_run_state :: "bool \<Rightarrow> system \<Rightarrow> system" where
  "notify_run_state running s = on_iv_run_state_changed running s"

definition integrated_start_sweep :: "pyenv \<Rightarrow> system \<Rightarrow> system" where
  "integrated_start_sweep env s =
     (let s1 = start_sweep env s
      in if is_sweep_running s1 then notify_run_state True s1 else s1)"

definition focus_iv_tab :: "system \<Rightarrow> system" where
  "focus_iv_tab s = emit (TabSelected ''I-V Sweep'') s"

text \<open>
  \<^verbatim>\<open>ReceiveAndIVApp._handle_trigger()\<close>, the callback the listener posts when a
  trigger has arrived. It runs on the UI thread. To see the order of its effects the
  model returns the state after each statement, in order, and the exception that ended
  the callback, if any.
\<close>

definition handle_trigger_trace :: "pyenv \<Rightarrow> system \<Rightarrow> error option \<times> system list" where
  "handle_trigger_trace env s =
     (if is_sweep_running s
      then (None, [emit (ShowInfo ''Trigger''
                     ''An I-V sweep is already running. The new trigger is ignored.'') s])
      else if tg_inst (trigger_gui s) = None
      then (None, [emit (ShowWarning ''Trigger''
                     ''Trigger detected but the instrument is disconnected. Connect and wait again.'')
                     s])
      else
        let s1 = focus_iv_tab s in
        case attach_shared_instrument (tg_inst (trigger_gui s1)) (tg_rm (trigger_gui s1))
               (tg_address_var (trigger_gui s1)) s1 of
          Inl e \<Rightarrow> (Some e, [s1])
        | Inr s2 \<Rightarrow>
            let s3 = set_instrument_lock True s2;
                s4 = integrated_start_sweep env s3
            in if \<not> is_sweep_running s4
               then (let s5 = release_shared_instrument s4;
                         s6 = set_instrument_lock False s5
                     in (None, [s1, s2, s3, s4, s5, s6]))
               else (None, [s1, s2, s3, s4]))"

definition handle_trigger :: "pyenv \<Rightarrow> system \<Rightarrow> system" where
  "handle_trigger env s = last (snd (handle_trigger_trace env s))"






section \<open>The sweep worker\<close>







text \<open>
  What the worker thread changes besides the instrument session: fields of the
  application it writes, the callbacks it posts, and the local variables of
  \<^verbatim>\<open>_sweep_worker\<close> and \<^verbatim>\<open>_perform_sweep\<close> that their closures update.
  \<open>current_entry\<close> is the last element of \<open>run_entries\<close>.
\<close>

record worker =
  script_loaded :: bool
  color_cycle :: nat
  posted :: "ui_call list"
  worker_log :: "string list"
  command_index :: nat
  run_voltages :: "real list"
  run_currents :: "real list"
  run_commanded :: "real list"
  run_lines :: "string list"
  run_entries :: "run_entry list"
  segment_voltages :: "real list"
  segment_currents :: "real list"












definition post :: "ui_call \<Rightarrow> worker \<Rightarrow> worker" where
  "post c k = k\<lparr>posted := posted k @ [c]\<rparr>"













section \<open>The callbacks of the sweep on the UI thread\<close>

text \<open>\<^verbatim>\<open>IVSweepApp._update_live_plot(entries)\<close>; the plot itself is not modelled.\<close>

definition update_live_plot :: "run_entry list \<Rightarrow> system \<Rightarrow> system" where
  "update_live_plot entries s =
     (if entries \<noteq> []
      then s\<lparr>iv := (iv s)\<lparr>run_results := entries,
                 app_corrected_voltages := corrected_voltages (last entries),
                 current_data := zip (corrected_voltages (last entries)) (currents (last entries))\<rparr>\<rparr>
      else s\<lparr>iv := (iv s)\<lparr>run_results := entries, app_corrected_voltages := [],
                 current_data := []\<rparr>\<rparr>)"

text \<open>\<^verbatim>\<open>IVSweepApp._on_sweep_complete(entries)\<close>.\<close>

definition log_entry :: "run_entry \<Rightarrow> system \<Rightarrow> system" where
  "log_entry entry s =
     (let s1 = iv_log (''Run '' @ show_nat (run_index entry) @ '': Received ''
                        @ show_nat (point_count entry) @ '' points.'') s;
          s2 = (if adjusted entry
                then iv_log (''Run '' @ show_nat (run_index entry)
                        @ '': Applied commanded voltage levels after current limit.'') s1
                else s1)
      in fold iv_log (printed_lines entry) s2)"

definition on_sweep_complete :: "run_entry list \<Rightarrow> system \<Rightarrow> system" where
  "on_sweep_complete entries s =
     (let s1 = update_live_plot entries s;
          s2 = s1\<lparr>iv := (iv s1)\<lparr>run_button := True\<rparr>\<rparr>
      in if entries \<noteq> []
         then
           let s3 = s2\<lparr>iv := (iv s2)\<lparr>output_lines := printed_lines (last entries),
                                     save_button := True\<rparr>\<rparr>;
               s4 = iv_log (''Sense mode: '' @ wiring_var (iv s3)) s3;
               s5 = fold log_entry entries s4
           in iv_log ''Sweep finished.'' s5
         else
           iv_log ''Sweep finished but no data was returned.''
             (s2\<lparr>iv := (iv s2)\<lparr>run_results := [], current_data := [],
                       app_corrected_voltages := [], save_button := False\<rparr>\<rparr>))"


text \<open>The overrides of \<^verbatim>\<open>IntegratedIVSweepApp\<close>.\<close>

definition integrated_on_sweep_complete :: "run_entry list \<Rightarrow> system \<Rightarrow> system" where
  "integrated_on_sweep_complete entries s =
     (let s1 = on_sweep_complete entries s;
          s2 = notify_run_state False s1
      in if using_shared_session (iv s2) then release_shared_instrument s2 else s2)"








section \<open>Properties of the reconciliation\<close>

lemma match_fold_inv:
  "n \<le> length e \<Longrightarrow> n \<le> length a \<Longrightarrow>
   (case fold (match_step e a tol) [0 ..< n] (None, []) of
      (None, m) \<Rightarrow> length m = n \<and> (\<forall>j<n. abs (e ! j - a ! j) \<le> tol) \<and> (\<forall>i<n. m ! i = a ! i)
    | (Some k, m) \<Rightarrow> length m = n \<and> k < n \<and> abs (e ! k - a ! k) > tol
          \<and> (\<forall>j<k. abs (e ! j - a ! j) \<le> tol) \<and> (\<forall>i<k. m ! i = a ! i)
          \<and> (\<forall>i. k \<le> i \<and> i < n \<longrightarrow> m ! i = e ! i))"
proof (induction n)
  case 0
  then show ?case by simp
next
  case (Suc n)
  then show ?case
    apply (simp add: match_step_def Let_def split: prod.splits option.splits)
    apply (auto simp: nth_append less_Suc_eq)
    done
qed

lemma match_length: "length (match_voltage_sequence e a) = length a"
proof (cases "e = [] \<or> a = []")
  case True
  then show ?thesis by (auto simp: match_voltage_sequence_def)
next
  case False
  let ?L = "min (length e) (length a)"
  obtain st m where f: "fold (match_step e a (match_tolerance e a)) [0 ..< ?L] (None, []) = (st, m)"
    by (cases "fold (match_step e a (match_tolerance e a)) [0 ..< ?L] (None, [])") auto
  have "length m = ?L"
    using match_fold_inv [of ?L e a "match_tolerance e a"] f by (cases st) auto
  then show ?thesis using False f
    by (auto simp: match_voltage_sequence_def Let_def min_def split: if_splits)
qed

lemma match_shape:
  assumes "e \<noteq> []" "a \<noteq> []"
  shows "\<exists>st m. fold (match_step e a (match_tolerance e a)) [0 ..< min (length e) (length a)] (None, []) = (st, m)
           \<and> length m = min (length e) (length a)
           \<and> match_voltage_sequence e a = m @ drop (min (length e) (length a)) a"
proof -
  let ?L = "min (length e) (length a)"
  obtain st m where f: "fold (match_step e a (match_tolerance e a)) [0 ..< ?L] (None, []) = (st, m)"
    by (cases "fold (match_step e a (match_tolerance e a)) [0 ..< ?L] (None, [])") auto
  have len: "length m = ?L"
    using match_fold_inv [of ?L e a "match_tolerance e a"] f by (cases st) auto
  have "match_voltage_sequence e a = m @ drop ?L a"
    using assms f by (auto simp: match_voltage_sequence_def Let_def)
  with f len show ?thesis by blast
qed

lemma match_stuck:
  assumes k: "k < min (length e) (length a)"
    and dev: "match_tolerance e a < abs (e ! k - a ! k)"
    and first: "\<forall>j<k. abs (e ! j - a ! j) \<le> match_tolerance e a"
  shows "(\<forall>i<k. match_voltage_sequence e a ! i = a ! i)
       \<and> (\<forall>i. k \<le> i \<and> i < min (length e) (length a) \<longrightarrow> match_voltage_sequence e a ! i = e ! i)
       \<and> (\<forall>i. min (length e) (length a) \<le> i \<and> i < length a \<longrightarrow> match_voltage_sequence e a ! i = a ! i)"
proof -
  let ?L = "min (length e) (length a)"
  let ?tol = "match_tolerance e a"
  from k have ne: "e \<noteq> []" "a \<noteq> []" by auto
  from match_shape [OF ne] obtain st m where
    f: "fold (match_step e a ?tol) [0 ..< ?L] (None, []) = (st, m)"
    and len: "length m = ?L"
    and r: "match_voltage_sequence e a = m @ drop ?L a" by blast
  note inv = match_fold_inv [of ?L e a ?tol, unfolded f]
  show ?thesis
  proof (cases st)
    case None
    with inv have "\<forall>j< ?L. abs (e ! j - a ! j) \<le> ?tol" by simp
    with k have "abs (e ! k - a ! k) \<le> ?tol" by blast
    with dev show ?thesis by linarith
  next
    case (Some k')
    with inv have k': "k' < ?L" "abs (e ! k' - a ! k') > ?tol"
      "\<forall>j<k'. abs (e ! j - a ! j) \<le> ?tol"
      "\<forall>i<k'. m ! i = a ! i" "\<forall>i. k' \<le> i \<and> i < ?L \<longrightarrow> m ! i = e ! i" by simp_all
    have "k' = k"
    proof (rule ccontr)
      assume "k' \<noteq> k"
      then consider "k' < k" | "k < k'" by linarith
      then show False
      proof cases
        case 1
        with first have "abs (e ! k' - a ! k') \<le> ?tol" by blast
        with k'(2) show False by linarith
      next
        case 2
        with k'(3) have "abs (e ! k - a ! k) \<le> ?tol" by blast
        with dev show False by linarith
      qed
    qed
    have p1: "\<forall>i<k. match_voltage_sequence e a ! i = a ! i"
      using k'(4) \<open>k' = k\<close> k len by (simp add: r nth_append)
    have p2: "\<forall>i. k \<le> i \<and> i < ?L \<longrightarrow> match_voltage_sequence e a ! i = e ! i"
      using k'(5) \<open>k' = k\<close> len by (simp add: r nth_append)
    have p3: "\<forall>i. ?L \<le> i \<and> i < length a \<longrightarrow> match_voltage_sequence e a ! i = a ! i"
    proof (intro allI impI)
      fix i assume "?L \<le> i \<and> i < length a"
      then show "match_voltage_sequence e a ! i = a ! i"
        using len by (auto simp: r nth_append)
    qed
    from p1 p2 p3 show ?thesis by blast
  qed
qed

lemma match_clean:
  assumes "\<forall>j<min (length e) (length a). abs (e ! j - a ! j) \<le> match_tolerance e a"
  shows "match_voltage_sequence e a = a"
proof (cases "e = [] \<or> a = []")
  case True
  then show ?thesis by (auto simp: match_voltage_sequence_def)
next
  case False
  let ?L = "min (length e) (length a)"
  let ?tol = "match_tolerance e a"
  from False have ne: "e \<noteq> []" "a \<noteq> []" by auto
  from match_shape [OF ne] obtain st m where
    f: "fold (match_step e a ?tol) [0 ..< ?L] (None, []) = (st, m)"
    and len: "length m = ?L"
    and r: "match_voltage_sequence e a = m @ drop ?L a" by blast
  note inv = match_fold_inv [of ?L e a ?tol, unfolded f]
  have "st = None"
  proof (cases st)
    case (Some k')
    with inv have "k' < ?L" "abs (e ! k' - a ! k') > ?tol" by simp_all
    with assms have False by (meson not_less)
    then show ?thesis ..
  qed simp
  with inv have "\<forall>i< ?L. m ! i = a ! i" by simp
  with len have "m = take ?L a"
    by (intro nth_equalityI) auto
  with r show ?thesis by simp
qed

lemma base_step_Min:
  assumes "step_candidates e n \<noteq> []"
  shows "base_step e n = Min (set (step_candidates e n))"
proof (cases "step_candidates e n")
  case Nil
  with assms show ?thesis by simp
next
  case (Cons x xs)
  then show ?thesis using Min.set_eq_fold [of x xs] by (simp add: base_step_def)
qed

lemma set_step_candidates:
  "set (step_candidates e n) =
     {abs (e ! (i + 1) - e ! i) | i. i + 1 < n \<and> \<not> isclose (e ! (i + 1)) (e ! i) (1 / 10 ^ 12)}"
  by (auto simp: step_candidates_def)

text \<open>
  C1, as the code has it. With \<open>len = min (length e) (length a)\<close> and the tolerance
  \<open>max (base_step * 0.02) 1e-6\<close>, where \<open>base_step\<close> is the least difference between
  consecutive commanded levels among the first \<open>len\<close> of them that \<^verbatim>\<open>math.isclose\<close>
  does not find negligible (0 when there is none): when \<open>k\<close> is the first index below
  \<open>len\<close> whose deviation exceeds the tolerance, the result is the measured value before
  \<open>k\<close>, the commanded value from \<open>k\<close> up to \<open>len\<close>, and the measured value from
  \<open>len\<close> on; when no index deviates the measured sequence is returned unchanged.
  For commanded \<open>[0,1,2,3,4]\<close> and measured \<open>[0,1,2,2,2]\<close> the result is
  \<open>[0,1,2,3,4]\<close>.
\<close>

theorem match_voltage_sequence_sticky:
  "(\<forall>k. k < min (length e) (length a)
        \<and> match_tolerance e a < abs (e ! k - a ! k)
        \<and> (\<forall>j<k. abs (e ! j - a ! j) \<le> match_tolerance e a)
      \<longrightarrow> (\<forall>i<k. match_voltage_sequence e a ! i = a ! i)
        \<and> (\<forall>i. k \<le> i \<and> i < min (length e) (length a)
              \<longrightarrow> match_voltage_sequence e a ! i = e ! i)
        \<and> (\<forall>i. min (length e) (length a) \<le> i \<and> i < length a
              \<longrightarrow> match_voltage_sequence e a ! i = a ! i))
   \<and> ((\<forall>j<min (length e) (length a). abs (e ! j - a ! j) \<le> match_tolerance e a)
      \<longrightarrow> match_voltage_sequence e a = a)
   \<and> length (match_voltage_sequence e a) = length a
   \<and> match_tolerance e a
       = max (base_step e (min (length e) (length a)) * 0.02) (1 / 10 ^ 6)
   \<and> base_step e (min (length e) (length a))
       = (if \<exists>i. i + 1 < min (length e) (length a)
                 \<and> \<not> isclose (e ! (i + 1)) (e ! i) (1 / 10 ^ 12)
          then Min {abs (e ! (i + 1) - e ! i) | i.
                 i + 1 < min (length e) (length a)
                   \<and> \<not> isclose (e ! (i + 1)) (e ! i) (1 / 10 ^ 12)}
          else 0)
   \<and> match_voltage_sequence [0, 1, 2, 3, 4] [0, 1, 2, 2, 2] = [0, 1, 2, 3, 4]"
proof -
  let ?L = "min (length e) (length a)"
  have a1: "\<forall>k. k < ?L \<and> match_tolerance e a < abs (e ! k - a ! k)
        \<and> (\<forall>j<k. abs (e ! j - a ! j) \<le> match_tolerance e a)
      \<longrightarrow> (\<forall>i<k. match_voltage_sequence e a ! i = a ! i)
        \<and> (\<forall>i. k \<le> i \<and> i < ?L \<longrightarrow> match_voltage_sequence e a ! i = e ! i)
        \<and> (\<forall>i. ?L \<le> i \<and> i < length a \<longrightarrow> match_voltage_sequence e a ! i = a ! i)"
    using match_stuck [of _ e a] by blast
  have a2: "(\<forall>j< ?L. abs (e ! j - a ! j) \<le> match_tolerance e a)
      \<longrightarrow> match_voltage_sequence e a = a"
    using match_clean [of e a] by blast
  have a3: "match_tolerance e a = max (base_step e ?L * 0.02) (1 / 10 ^ 6)"
    by (simp add: match_tolerance_def)
  have ne: "(step_candidates e ?L \<noteq> []) =
      (\<exists>i. i + 1 < ?L \<and> \<not> isclose (e ! (i + 1)) (e ! i) (1 / 10 ^ 12))"
    using set_step_candidates [of e ?L] by (auto simp flip: set_empty)
  let ?P = "\<exists>i. i + 1 < ?L \<and> \<not> isclose (e ! (i + 1)) (e ! i) (1 / 10 ^ 12)"
  have a4: "base_step e ?L
       = (if ?P
          then Min {abs (e ! (i + 1) - e ! i) | i.
                 i + 1 < ?L \<and> \<not> isclose (e ! (i + 1)) (e ! i) (1 / 10 ^ 12)}
          else 0)"
  proof (cases "step_candidates e ?L = []")
    case True
    with ne have nP: "\<not> ?P" by blast
    have "base_step e ?L = 0" using True by (simp add: base_step_def)
    then show ?thesis unfolding if_not_P [OF nP] .
  next
    case False
    with ne have P: "?P" by blast
    have "base_step e ?L = Min (set (step_candidates e ?L))"
      by (rule base_step_Min [OF False])
    then have "base_step e ?L = Min {abs (e ! (i + 1) - e ! i) | i.
                 i + 1 < ?L \<and> \<not> isclose (e ! (i + 1)) (e ! i) (1 / 10 ^ 12)}"
      by (simp only: set_step_candidates)
    then show ?thesis unfolding if_P [OF P] .
  qed
  have a5: "match_voltage_sequence [0, 1, 2, 3, 4] [0, 1, 2, 2, 2] = [0, 1, 2, 3, 4]"
    by (simp add: match_voltage_sequence_def match_tolerance_def base_step_def
        step_candidates_def match_step_def isclose_def rel_tol_def upt_rec Let_def)
  from a1 a2 match_length [of e a] a3 a4 a5 show ?thesis by blast
qed

theorem match_voltage_sequence_sticky_witness:
  "(3::nat) < min (length [0, 1, 2, 3, 4::real]) (length [0, 1, 2, 2, 2::real])
   \<and> match_tolerance [0, 1, 2, 3, 4] [0, 1, 2, 2, 2]
       < abs ([0, 1, 2, 3, 4] ! 3 - [0, 1, 2, 2, 2] ! 3)
   \<and> abs ([0, 1, 2, 3, 4] ! 0 - [0, 1, 2, 2, 2] ! 0)
       \<le> match_tolerance [0, 1, 2, 3, 4] [0, 1, 2, 2, 2]
   \<and> abs ([0, 1, 2, 3, 4] ! 1 - [0, 1, 2, 2, 2] ! 1)
       \<le> match_tolerance [0, 1, 2, 3, 4] [0, 1, 2, 2, 2]
   \<and> abs ([0, 1, 2, 3, 4] ! 2 - [0, 1, 2, 2, 2] ! 2)
       \<le> match_tolerance [0, 1, 2, 3, 4] [0, 1, 2, 2, 2]
   \<and> match_voltage_sequence [0, 1, 2, 3, 4] [0, 1, 2, 2, 2] ! 0 = [0, 1, 2, 2, 2] ! 0
   \<and> match_voltage_sequence [0, 1, 2, 3, 4] [0, 1, 2, 2, 2] ! 1 = [0, 1, 2, 2, 2] ! 1
   \<and> match_voltage_sequence [0, 1, 2, 3, 4] [0, 1, 2, 2, 2] ! 2 = [0, 1, 2, 2, 2] ! 2
   \<and> match_voltage_sequence [0, 1, 2, 3, 4] [0, 1, 2, 2, 2] ! 3 = [0, 1, 2, 3, 4] ! 3
   \<and> match_voltage_sequence [0, 1, 2, 3, 4] [0, 1, 2, 2, 2] ! 4 = [0, 1, 2, 3, 4] ! 4
   \<and> abs ([0, 1, 2] ! 0 - [0, 1, 2, 7] ! 0) \<le> match_tolerance [0, 1, 2] [0, 1, 2, 7]
   \<and> abs ([0, 1, 2] ! 1 - [0, 1, 2, 7] ! 1) \<le> match_tolerance [0, 1, 2] [0, 1, 2, 7]
   \<and> abs ([0, 1, 2] ! 2 - [0, 1, 2, 7] ! 2) \<le> match_tolerance [0, 1, 2] [0, 1, 2, 7]
   \<and> match_voltage_sequence [0, 1, 2] [0, 1, 2, 7] = [0, 1, 2, 7]"
proof -
  let ?e = "[0, 1, 2, 3, 4::real]" and ?a = "[0, 1, 2, 2, 2::real]"
  let ?e' = "[0, 1, 2::real]" and ?a' = "[0, 1, 2, 7::real]"
  have tol1: "match_tolerance ?e ?a = 1 / 50"
    by (simp add: match_tolerance_def base_step_def step_candidates_def isclose_def
        rel_tol_def upt_rec)
  have tol2: "match_tolerance ?e' ?a' = 1 / 50"
    by (simp add: match_tolerance_def base_step_def step_candidates_def isclose_def
        rel_tol_def upt_rec)
  have h1: "(3::nat) < min (length ?e) (length ?a)"
    by simp
  have h2: "match_tolerance ?e ?a < abs (?e ! 3 - ?a ! 3)"
    by (simp add: tol1)
  have h3: "\<forall>j<3. abs (?e ! j - ?a ! j) \<le> match_tolerance ?e ?a"
    by (simp add: tol1 numeral_3_eq_3 All_less_Suc)
  have h4: "\<forall>j<min (length ?e') (length ?a'). abs (?e' ! j - ?a' ! j) \<le> match_tolerance ?e' ?a'"
    by (simp add: tol2 numeral_3_eq_3 All_less_Suc)
  from match_voltage_sequence_sticky [of ?e ?a] h1 h2 h3
  have c1: "\<forall>i<3. match_voltage_sequence ?e ?a ! i = ?a ! i"
    and c2: "\<forall>i. 3 \<le> i \<and> i < min (length ?e) (length ?a)
               \<longrightarrow> match_voltage_sequence ?e ?a ! i = ?e ! i"
    by blast+
  from match_voltage_sequence_sticky [of ?e' ?a'] h4
  have c3: "match_voltage_sequence ?e' ?a' = ?a'"
    by blast
  have d0: "match_voltage_sequence ?e ?a ! 0 = ?a ! 0" using c1 by simp
  have d1: "match_voltage_sequence ?e ?a ! 1 = ?a ! 1" using c1 by simp
  have d2: "match_voltage_sequence ?e ?a ! 2 = ?a ! 2" using c1 by simp
  have d3: "match_voltage_sequence ?e ?a ! 3 = ?e ! 3" using c2 by simp
  have d4: "match_voltage_sequence ?e ?a ! 4 = ?e ! 4" using c2 by simp
  have g0: "abs (?e ! 0 - ?a ! 0) \<le> match_tolerance ?e ?a" by (simp add: tol1)
  have g1: "abs (?e ! 1 - ?a ! 1) \<le> match_tolerance ?e ?a" by (simp add: tol1)
  have g2: "abs (?e ! 2 - ?a ! 2) \<le> match_tolerance ?e ?a" by (simp add: tol1)
  have k0: "abs (?e' ! 0 - ?a' ! 0) \<le> match_tolerance ?e' ?a'" by (simp add: tol2)
  have k1: "abs (?e' ! 1 - ?a' ! 1) \<le> match_tolerance ?e' ?a'" by (simp add: tol2)
  have k2: "abs (?e' ! 2 - ?a' ! 2) \<le> match_tolerance ?e' ?a'" by (simp add: tol2)
  show ?thesis
    by (intro conjI h1 h2 g0 g1 g2 d0 d1 d2 d3 d4 k0 k1 k2 c3)
qed

text \<open>
  The claim takes the base step over all commanded levels. With commanded
  \<open>[0, 8, 9]\<close> and measured \<open>[0, 8.125]\<close> that reading gives the tolerance \<open>0.02\<close>,
  so index 1 is the first deviating index and the claim asks for the commanded value 8
  there. The code looks at the first two commanded levels only, finds the tolerance
  \<open>0.16\<close>, and returns the measured value \<open>8.125\<close>.
\<close>

theorem match_voltage_sequence_whole_ladder_counterexample:
  "spec_tolerance [0, 8, 9] = 0.02
   \<and> (1::nat) < min (length [0, 8, 9::real]) (length [0, 8.125::real])
   \<and> spec_tolerance [0, 8, 9] < abs ([0, 8, 9] ! 1 - [0, 8.125] ! 1)
   \<and> abs ([0, 8, 9] ! 0 - [0, 8.125] ! 0) \<le> spec_tolerance [0, 8, 9]
   \<and> match_voltage_sequence [0, 8, 9] [0, 8.125] ! 1 \<noteq> [0, 8, 9] ! 1
   \<and> match_voltage_sequence [0, 8, 9] [0, 8.125] = [0, 8.125]"
  by (simp add: spec_tolerance_def spec_base_step_def match_voltage_sequence_def
      match_tolerance_def base_step_def step_candidates_def match_step_def isclose_def
      rel_tol_def upt_rec Let_def)


section \<open>Properties of the segment planner\<close>

text \<open>
  The four ladders of the sweep from -4 V to 4 V in steps of 0.1 V; \<open>epsilon\<close> is
  \<open>0.1 * 1e-9 + 1e-12 = 101 / 10 ^ 12\<close>.
\<close>

lemma ladder_up_0_4:
  "generate_segment_levels (101 / 1000000000000) 0 4 (1 / 10)
     = map (\<lambda>k. real k / 10) [0 ..< 41]"
  by (simp add: generate_segment_levels_def levels_loop.simps next_level_def isclose_def
      rel_tol_def Let_def upt_rec)

lemma ladder_down_4_0:
  "generate_segment_levels (101 / 1000000000000) 4 0 (- (1 / 10))
     = map (\<lambda>k. 4 - real k / 10) [0 ..< 41]"
  by (simp add: generate_segment_levels_def levels_loop.simps next_level_def isclose_def
      rel_tol_def Let_def upt_rec)

lemma ladder_down_0_m4:
  "generate_segment_levels (101 / 1000000000000) 0 (- 4) (- (1 / 10))
     = map (\<lambda>k. - (real k / 10)) [0 ..< 41]"
  by (simp add: generate_segment_levels_def levels_loop.simps next_level_def isclose_def
      rel_tol_def Let_def upt_rec)

lemma ladder_up_m4_0:
  "generate_segment_levels (101 / 1000000000000) (- 4) 0 (1 / 10)
     = map (\<lambda>k. real k / 10 - 4) [0 ..< 41]"
  by (simp add: generate_segment_levels_def levels_loop.simps next_level_def isclose_def
      rel_tol_def Let_def upt_rec)

text \<open>
  C4. For start = -4.0, stop = 4.0, step = 0.1 (whatever the compliance, NPLC and settle
  values) the planner returns exactly the four segments 0 \<rightarrow> 4, 4 \<rightarrow> 0, 0 \<rightarrow> -4, -4 \<rightarrow> 0
  in that order, with steps 0.1, -0.1, -0.1, 0.1. Each ladder has 41 levels (both ends
  included, 40 steps), and the commanded path, their concatenation, has 164 levels.
\<close>

theorem build_segments_pm4:
  "build_segments \<lparr>start_v = - 4, stop_v = 4, step_v = 0.1, ilimit = i, nplc = n, settle = s\<rparr>
     = Inr ([(0, 4, 0.1), (4, 0, - 0.1), (0, - 4, - 0.1), (- 4, 0, 0.1)],
            map (\<lambda>k. real k / 10) [0 ..< 41] @ map (\<lambda>k. 4 - real k / 10) [0 ..< 41]
              @ map (\<lambda>k. - (real k / 10)) [0 ..< 41] @ map (\<lambda>k. real k / 10 - 4) [0 ..< 41])
   \<and> length (map (\<lambda>k. real k / 10) [0 ..< 41]) = 41
   \<and> length (map (\<lambda>k. 4 - real k / 10) [0 ..< 41]) = 41
   \<and> length (map (\<lambda>k. - (real k / 10)) [0 ..< 41]) = 41
   \<and> length (map (\<lambda>k. real k / 10 - 4) [0 ..< 41]) = 41
   \<and> (case build_segments
              \<lparr>start_v = - 4, stop_v = 4, step_v = 0.1, ilimit = i, nplc = n, settle = s\<rparr>
       of Inl e \<Rightarrow> False | Inr (segments, path_levels) \<Rightarrow>
            length segments = 4 \<and> length path_levels = 164
            \<and> map (\<lambda>(a, b, c). length (generate_segment_levels
                       (0.1 * (1 / 10 ^ 9) + 1 / 10 ^ 12) a b c)) segments = [41, 41, 41, 41])"
proof -
  let ?p = "\<lparr>start_v = - 4, stop_v = 4, step_v = 0.1, ilimit = i, nplc = n, settle = s\<rparr>"
  have b: "build_segments ?p
     = Inr ([(0, 4, 0.1), (4, 0, - 0.1), (0, - 4, - 0.1), (- 4, 0, 0.1)],
            map (\<lambda>k. real k / 10) [0 ..< 41] @ map (\<lambda>k. 4 - real k / 10) [0 ..< 41]
              @ map (\<lambda>k. - (real k / 10)) [0 ..< 41] @ map (\<lambda>k. real k / 10 - 4) [0 ..< 41])"
    unfolding build_segments_def append_segment_def
    by (simp add: Let_def isclose_def rel_tol_def ladder_up_0_4 ladder_down_4_0
        ladder_down_0_m4 ladder_up_m4_0 del: upt.simps map_append)
  have l: "map (\<lambda>(a, b, c). length (generate_segment_levels
                       (0.1 * (1 / 10 ^ 9) + 1 / 10 ^ 12) a b c))
             [(0, 4, 0.1), (4, 0, - 0.1), (0, - 4, - 0.1), (- 4, 0, 0.1)] = [41, 41, 41, 41]"
    by (simp add: ladder_up_0_4 ladder_down_4_0 ladder_down_0_m4 ladder_up_m4_0
        del: upt.simps)
  show ?thesis
    unfolding b using l by (simp del: upt.simps)
qed


section \<open>The ladders of the planner\<close>







lemma next_level_neg:
  "st < 0 \<Longrightarrow> next_level e b st c = (if c + st < b - e then b else c + st)"
  by (simp add: next_level_def Let_def)







lemma loop_measure_mirror:
  "loop_measure e (- b) (- st) (- c) = loop_measure e b st c"
  by (auto simp: loop_measure_def algebra_simps)


























section \<open>Properties of the drain loop\<close>



lemma drain_completes_on_marker:
  "fst (drain marker on_line polls rs st lines) = Inr ls \<Longrightarrow>
     \<exists>pre raw post. rs = map Inr pre @ Inr raw # post \<and> strip raw = marker"
proof (induction rs arbitrary: polls st lines)
  case Nil
  then show ?case by (simp split: if_splits)
next
  case (Cons r rs)
  show ?case
  proof (cases r)
    case (Inl e)
    with Cons.prems show ?thesis by (simp split: if_splits)
  next
    case (Inr raw)
    show ?thesis
    proof (cases "strip raw = marker")
      case True
      have "r # rs = map Inr [] @ Inr raw # rs" using Inr by simp
      with True show ?thesis by blast
    next
      case False
      with Cons.prems Inr obtain polls' st' lines' where
        "fst (drain marker on_line polls' rs st' lines') = Inr ls"
        by (auto simp: Let_def split: if_splits)
      from Cons.IH [OF this] obtain pre raw' post where
        "rs = map Inr pre @ Inr raw' # post" "strip raw' = marker" by blast
      then have "r # rs = map Inr (raw # pre) @ Inr raw' # post" using Inr by simp
      with \<open>strip raw' = marker\<close> show ?thesis by blast
    qed
  qed
qed

text \<open>
  C2, as the code has it. While cancellation is not requested, a read that raises
  \<^verbatim>\<open>VisaIOError\<close> before the marker, a timeout like any other, ends the drain loop
  with \<^verbatim>\<open>RuntimeError\<close>: the segment is aborted, no further read is made, and the
  reads that were to come stay unread. The same holds when the instrument stays silent.
  A timeout is never taken for the end of the segment: the loop returns its lines only
  after reading the marker, every read before it having returned a line.
\<close>

theorem drain_timeout_aborts:
  "(\<not> fst (poll polls) \<longrightarrow>
      drain marker on_line polls (Inl e # rs) st lines
        = (Inl (RuntimeError (''Failed while waiting for sweep output: '' @ visa_message e)),
           snd (poll polls), rs, st))
   \<and> (\<not> fst (poll polls) \<longrightarrow>
      drain marker on_line polls [] st lines
        = (Inl (RuntimeError (''Failed while waiting for sweep output: ''
                  @ visa_message VI_ERROR_TMO)), snd (poll polls), [], st))
   \<and> (fst (drain marker on_line polls rs' st lines) = Inr ls \<longrightarrow>
        (\<exists>pre raw post. rs' = map Inr pre @ Inr raw # post \<and> strip raw = marker))"
  using drain_completes_on_marker [of marker on_line polls rs' st lines ls] by simp

theorem drain_timeout_aborts_witness:
  "\<not> fst (poll [False])
   \<and> drain ''DONE'' (None :: (string \<Rightarrow> unit \<Rightarrow> error option \<times> unit) option) [False]
        [Inl VI_ERROR_TMO, Inr ''DONE''] () [''1 0 0'']
      = (Inl (RuntimeError ''Failed while waiting for sweep output: VI_ERROR_TMO''),
         [], [Inr ''DONE''], ())
   \<and> drain ''DONE'' (None :: (string \<Rightarrow> unit \<Rightarrow> error option \<times> unit) option) [False]
        [] () [''1 0 0'']
      = (Inl (RuntimeError ''Failed while waiting for sweep output: VI_ERROR_TMO''),
         [], [], ())
   \<and> fst (drain ''DONE'' (None :: (string \<Rightarrow> unit \<Rightarrow> error option \<times> unit) option) []
        [Inr ''1 0 0'', Inr ''DONE''] () []) = Inr [''1 0 0'']
   \<and> strip ''DONE'' = ''DONE''"
proof -
  let ?n = "None :: (string \<Rightarrow> unit \<Rightarrow> error option \<times> unit) option"
  have p: "\<not> fst (poll [False])" by (simp add: poll_def)
  have a: "drain ''DONE'' ?n [False] [Inl VI_ERROR_TMO, Inr ''DONE''] () [''1 0 0'']
      = (Inl (RuntimeError ''Failed while waiting for sweep output: VI_ERROR_TMO''),
         [], [Inr ''DONE''], ())"
    using drain_timeout_aborts [of "[False]" "''DONE''" ?n VI_ERROR_TMO "[Inr ''DONE'']" "()"
        "[''1 0 0'']"] p
    by (simp add: poll_def visa_message_def)
  have b: "drain ''DONE'' ?n [False] [] () [''1 0 0'']
      = (Inl (RuntimeError ''Failed while waiting for sweep output: VI_ERROR_TMO''),
         [], [], ())"
    by (simp add: poll_def visa_message_def)
  have c: "fst (drain ''DONE'' ?n [] [Inr ''1 0 0'', Inr ''DONE''] () []) = Inr [''1 0 0'']"
    by (simp add: poll_def strip_def is_space_def Let_def)
  have d: "strip ''DONE'' = ''DONE''"
    by (simp add: strip_def is_space_def)
  from p a b c d show ?thesis by (intro conjI)
qed

text \<open>
  The claim has the loop go on with another read after a timeout. With the reads
  \<open>timeout, marker\<close> and no cancellation the loop would then reach the marker and
  return. The code raises at the timeout and leaves the marker unread.
\<close>

theorem drain_timeout_counterexample:
  "\<not> fst (poll [])
   \<and> fst (drain ''DONE'' (None :: (string \<Rightarrow> unit \<Rightarrow> error option \<times> unit) option) []
        [Inl VI_ERROR_TMO, Inr ''DONE''] () [])
      = Inl (RuntimeError ''Failed while waiting for sweep output: VI_ERROR_TMO'')
   \<and> fst (snd (snd (drain ''DONE'' (None :: (string \<Rightarrow> unit \<Rightarrow> error option \<times> unit) option) []
        [Inl VI_ERROR_TMO, Inr ''DONE''] () []))) = [Inr ''DONE'']"
  by (simp add: poll_def visa_message_def)





section \<open>Properties of the sweep start\<close>

lemma collect_parameters_zero_step:
  assumes "pf (step_var ui) = Some 0"
  shows "\<exists>msg. collect_parameters pf ui = Inl (ValueError msg)"
  using assms
  by (auto simp: collect_parameters_def parse_float_def split: option.splits)

lemma generate_segment_levels_zero_step:
  "generate_segment_levels epsilon start stop 0 = [start]"
  by (simp add: generate_segment_levels_def isclose_def)

text \<open>
  C8. When the step field reads as zero, \<^verbatim>\<open>_collect_parameters\<close> raises
  \<^verbatim>\<open>ValueError\<close>, and \<^verbatim>\<open>start_sweep\<close> does nothing but show one error box: no
  worker thread is started, no session is written to or read from, and the state of both
  windows is as before. When the start and stop fields are numbers and the instrument is
  connected the message is "Step voltage must not be zero.". The planner itself refuses a
  zero step with the same \<^verbatim>\<open>ValueError\<close> before it generates any ladder, and the
  ladder generation, which is a total function, returns the start level alone for a zero
  step.
\<close>

theorem zero_step_fails_fast:
  "(py_float env (step_var (entry_fields (iv s))) = Some 0 \<longrightarrow>
      (\<exists>msg. collect_parameters (py_float env) (entry_fields (iv s)) = Inl (ValueError msg))
      \<and> (\<exists>title msg. start_sweep env s = emit (ShowError title msg) s)
      \<and> sessions (start_sweep env s) = sessions s
      \<and> iv (start_sweep env s) = iv s
      \<and> (\<forall>p n. SweepThreadStarted p n \<in> set (events (start_sweep env s))
             \<longrightarrow> SweepThreadStarted p n \<in> set (events s)))
   \<and> (py_float env (step_var (entry_fields (iv s))) = Some 0
        \<and> py_float env (start_var (entry_fields (iv s))) \<noteq> None
        \<and> py_float env (stop_var (entry_fields (iv s))) \<noteq> None
        \<and> iv_inst (iv s) \<noteq> None \<longrightarrow>
      start_sweep env s = emit (ShowError ''Parameters'' ''Step voltage must not be zero.'') s)
   \<and> (step_v p = 0 \<longrightarrow>
        build_segments p = Inl (ValueError ''Step voltage must not be zero.''))
   \<and> generate_segment_levels epsilon start stop 0 = [start]"
proof -
  have a: "py_float env (step_var (entry_fields (iv s))) = Some 0 \<longrightarrow>
      (\<exists>msg. collect_parameters (py_float env) (entry_fields (iv s)) = Inl (ValueError msg))
      \<and> (\<exists>title msg. start_sweep env s = emit (ShowError title msg) s)
      \<and> sessions (start_sweep env s) = sessions s
      \<and> iv (start_sweep env s) = iv s
      \<and> (\<forall>p n. SweepThreadStarted p n \<in> set (events (start_sweep env s))
             \<longrightarrow> SweepThreadStarted p n \<in> set (events s))"
  proof
    assume z: "py_float env (step_var (entry_fields (iv s))) = Some 0"
    from collect_parameters_zero_step [of "py_float env" "entry_fields (iv s)", OF z] obtain msg where
      c: "collect_parameters (py_float env) (entry_fields (iv s)) = Inl (ValueError msg)"
      by blast
    have "\<exists>title msg. start_sweep env s = emit (ShowError title msg) s"
      using c by (auto simp: start_sweep_def)
    then obtain title m where e: "start_sweep env s = emit (ShowError title m) s" by blast
    show "(\<exists>msg. collect_parameters (py_float env) (entry_fields (iv s)) = Inl (ValueError msg))
      \<and> (\<exists>title msg. start_sweep env s = emit (ShowError title msg) s)
      \<and> sessions (start_sweep env s) = sessions s
      \<and> iv (start_sweep env s) = iv s
      \<and> (\<forall>p n. SweepThreadStarted p n \<in> set (events (start_sweep env s))
             \<longrightarrow> SweepThreadStarted p n \<in> set (events s))"
      using c e by (auto simp: emit_def)
  qed
  have b: "py_float env (step_var (entry_fields (iv s))) = Some 0
        \<and> py_float env (start_var (entry_fields (iv s))) \<noteq> None
        \<and> py_float env (stop_var (entry_fields (iv s))) \<noteq> None
        \<and> iv_inst (iv s) \<noteq> None \<longrightarrow>
      start_sweep env s = emit (ShowError ''Parameters'' ''Step voltage must not be zero.'') s"
    by (auto simp: start_sweep_def collect_parameters_def parse_float_def error_message_def)
  have c: "step_v p = 0 \<longrightarrow>
        build_segments p = Inl (ValueError ''Step voltage must not be zero.'')"
    by (simp add: build_segments_def isclose_def)
  from a b c generate_segment_levels_zero_step [of epsilon start stop] show ?thesis
    by blast
qed

theorem zero_step_fails_fast_witness:
  "py_float
      \<lparr>py_float = (\<lambda>t. if t = ''0'' then Some 0 else if t = ''-4.0'' then Some (- 4)
                          else if t = ''4.0'' then Some 4 else None),
       py_int = (\<lambda>t. None), float_str = (\<lambda>x. ''''), tsp_script = [], tsp_file = None\<rparr>
      (step_var (entry_fields (iv (init_system\<lparr>iv := init_iv_app\<lparr>iv_inst := Some 0,
          entry_fields := (entry_fields init_iv_app)\<lparr>step_var := ''0''\<rparr>\<rparr>\<rparr>)))) = Some 0
   \<and> start_sweep
      \<lparr>py_float = (\<lambda>t. if t = ''0'' then Some 0 else if t = ''-4.0'' then Some (- 4)
                          else if t = ''4.0'' then Some 4 else None),
       py_int = (\<lambda>t. None), float_str = (\<lambda>x. ''''), tsp_script = [], tsp_file = None\<rparr>
      (init_system\<lparr>iv := init_iv_app\<lparr>iv_inst := Some 0,
          entry_fields := (entry_fields init_iv_app)\<lparr>step_var := ''0''\<rparr>\<rparr>\<rparr>)
     = emit (ShowError ''Parameters'' ''Step voltage must not be zero.'')
        (init_system\<lparr>iv := init_iv_app\<lparr>iv_inst := Some 0,
          entry_fields := (entry_fields init_iv_app)\<lparr>step_var := ''0''\<rparr>\<rparr>\<rparr>)
   \<and> step_v \<lparr>start_v = - 4, stop_v = 4, step_v = 0, ilimit = 0.5, nplc = 1, settle = 0.01\<rparr> = 0
   \<and> build_segments
        \<lparr>start_v = - 4, stop_v = 4, step_v = 0, ilimit = 0.5, nplc = 1, settle = 0.01\<rparr>
     = Inl (ValueError ''Step voltage must not be zero.'')"
proof -
  let ?env = "\<lparr>py_float = (\<lambda>t. if t = ''0'' then Some 0 else if t = ''-4.0'' then Some (- 4)
                          else if t = ''4.0'' then Some 4 else None),
       py_int = (\<lambda>t. None), float_str = (\<lambda>x. ''''), tsp_script = [], tsp_file = None\<rparr>"
  let ?s = "init_system\<lparr>iv := init_iv_app\<lparr>iv_inst := Some 0,
          entry_fields := (entry_fields init_iv_app)\<lparr>step_var := ''0''\<rparr>\<rparr>\<rparr>"
  let ?p = "\<lparr>start_v = - 4, stop_v = 4, step_v = 0, ilimit = 0.5, nplc = 1, settle = 0.01\<rparr>"
  have h1: "py_float ?env (step_var (entry_fields (iv ?s))) = Some 0"
    by (simp add: init_iv_app_def)
  have h2: "py_float ?env (start_var (entry_fields (iv ?s))) \<noteq> None"
    by (simp add: init_iv_app_def)
  have h3: "py_float ?env (stop_var (entry_fields (iv ?s))) \<noteq> None"
    by (simp add: init_iv_app_def)
  have h4: "iv_inst (iv ?s) \<noteq> None" by simp
  have h5: "step_v ?p = 0" by simp
  from zero_step_fails_fast [of ?env ?s ?p] h1 h2 h3 h4 h5
  have c1: "start_sweep ?env ?s
       = emit (ShowError ''Parameters'' ''Step voltage must not be zero.'') ?s"
    and c2: "build_segments ?p = Inl (ValueError ''Step voltage must not be zero.'')"
    by blast+
  from h1 c1 h5 c2 show ?thesis by (intro conjI)
qed


section \<open>Properties of the locked listener\<close>

text \<open>
  C7. While the listener is locked, \<^verbatim>\<open>start_wait\<close>, \<^verbatim>\<open>setup_trigger\<close> and
  \<^verbatim>\<open>disconnect\<close> do nothing but show the "Instrument Busy" box: the sessions, the
  listener's own state and the sweep window's state are as before, no thread is started
  and no callback is posted, so the request is not kept for later.
\<close>

theorem locked_listener_rejects:
  "instrument_locked (trigger_gui s) \<longrightarrow>
     start_wait env s
       = emit (ShowInfo ''Instrument Busy''
                 ''Cannot start a new wait while an I-V sweep is running.'') s
     \<and> setup_trigger env s
       = emit (ShowInfo ''Instrument Busy''
                 ''Cannot configure the trigger while an I-V sweep is running.'') s
     \<and> disconnect s
       = emit (ShowInfo ''Instrument Busy''
                 ''Cannot disconnect while an I-V sweep is running.'') s
     \<and> sessions (start_wait env s) = sessions s
     \<and> sessions (setup_trigger env s) = sessions s
     \<and> sessions (disconnect s) = sessions s
     \<and> trigger_gui (start_wait env s) = trigger_gui s
     \<and> trigger_gui (setup_trigger env s) = trigger_gui s
     \<and> trigger_gui (disconnect s) = trigger_gui s
     \<and> iv (start_wait env s) = iv s
     \<and> iv (setup_trigger env s) = iv s
     \<and> iv (disconnect s) = iv s"
  by (simp add: start_wait_def setup_trigger_def disconnect_def guard_if_locked_def emit_def)

theorem locked_listener_rejects_witness:
  "instrument_locked (trigger_gui
      (init_system\<lparr>trigger_gui := init_listener\<lparr>tg_inst := Some 0, instrument_locked := True\<rparr>,
                    sessions := (\<lambda>h. if h = 0 then Some (fresh_channel []) else None)\<rparr>))
   \<and> disconnect
      (init_system\<lparr>trigger_gui := init_listener\<lparr>tg_inst := Some 0, instrument_locked := True\<rparr>,
                    sessions := (\<lambda>h. if h = 0 then Some (fresh_channel []) else None)\<rparr>)
     = emit (ShowInfo ''Instrument Busy'' ''Cannot disconnect while an I-V sweep is running.'')
        (init_system\<lparr>trigger_gui := init_listener\<lparr>tg_inst := Some 0, instrument_locked := True\<rparr>,
                    sessions := (\<lambda>h. if h = 0 then Some (fresh_channel []) else None)\<rparr>)
   \<and> tg_inst (trigger_gui (disconnect
        (init_system\<lparr>trigger_gui := init_listener\<lparr>tg_inst := Some 0, instrument_locked := True\<rparr>,
                    sessions := (\<lambda>h. if h = 0 then Some (fresh_channel []) else None)\<rparr>)))
     = Some 0
   \<and> tg_inst (trigger_gui (disconnect
        (init_system\<lparr>trigger_gui := init_listener\<lparr>tg_inst := Some 0\<rparr>,
                    sessions := (\<lambda>h. if h = 0 then Some (fresh_channel []) else None)\<rparr>)))
     = None"
proof -
  let ?s = "init_system\<lparr>trigger_gui := init_listener\<lparr>tg_inst := Some 0, instrument_locked := True\<rparr>,
                    sessions := (\<lambda>h. if h = 0 then Some (fresh_channel []) else None)\<rparr>"
  have h: "instrument_locked (trigger_gui ?s)" by simp
  from locked_listener_rejects [of ?s] h
  have c1: "disconnect ?s
     = emit (ShowInfo ''Instrument Busy'' ''Cannot disconnect while an I-V sweep is running.'') ?s"
    and c2: "trigger_gui (disconnect ?s) = trigger_gui ?s"
    by blast+
  have c3: "tg_inst (trigger_gui (disconnect ?s)) = Some 0"
    by (simp add: c2)
  have c4: "tg_inst (trigger_gui (disconnect
        (init_system\<lparr>trigger_gui := init_listener\<lparr>tg_inst := Some 0\<rparr>,
                    sessions := (\<lambda>h. if h = 0 then Some (fresh_channel []) else None)\<rparr>)))
     = None"
    by (simp add: disconnect_def guard_if_locked_def super_disconnect_def init_system_def
        init_listener_def session_close_def set_buttons_def tg_log_def emit_def Let_def)
  from h c1 c3 c4 show ?thesis by (intro conjI)
qed


section \<open>Properties of the handoff\<close>






section \<open>Properties of the failure path\<close>






end
